theory Spec2Isabelle
  imports Main "HOL-Library.AList"
begin

section \<open>remote-sync.js: change detection, debounced batching and the SFTP connection\<close>

text \<open>
  The program is a set of callbacks run one at a time by the Node.js event loop: the
  watcher's \<open>ready\<close> and \<open>all\<close> listeners, the callback that \<open>getHash\<close> calls when a
  read stream ends, the \<open>setTimeout\<close> callback, the \<open>ready\<close> and \<open>error\<close> listeners of
  every SFTP client, the callback of \<open>conn.sftp\<close>, the callback of every
  \<open>sftp.fastPut\<close>, and the \<open>SIGINT\<close> listener. Each callback is a function from the
  module's variables (the record \<open>state\<close>) to the new variables and the list of
  effects it issued on its collaborators; a callback runs to completion before the next
  one starts. An uncaught exception or \<open>process.exit\<close> ends the process (\<open>Inl\<close>).
\<close>

subsection \<open>Configuration (config.json, read through nconf)\<close>

record config =
  localPath :: string
  remotePath :: string
  sftp_host :: string
  sftp_port :: nat
  sftp_username :: string
  sftp_password :: string

type_synonym conn_settings = "string \<times> nat \<times> string \<times> string"

definition connSettings :: "config \<Rightarrow> conn_settings" where
  "connSettings cfg = (sftp_host cfg, sftp_port cfg, sftp_username cfg, sftp_password cfg)"

subsection \<open>The module's variables and the objects it creates\<close>

text \<open>
  A \<open>Client\<close> made by \<open>connectToSFTPServer\<close> carries its own \<open>attempts\<close> counter (a
  \<open>let\<close> of that call) and its \<open>ready\<close> listeners in the order they were registered:
  \<open>MarkReady\<close> is the listener of lines 185-187, \<open>Drain\<close> the one of lines 116-146.
\<close>

datatype listener = MarkReady | Drain

record client =
  attempts :: nat
  ready_listeners :: "listener list"

text \<open>
  \<open>hashes\<close> is a JavaScript Array used as a dictionary from relative paths to digests
  (line 18); the field holds the properties the program's assignments have made, and
  what an Array does with the names \<open>length\<close> and \<open>__proto__\<close> is written out below,
  with the ledger check. \<open>updates\<close> is an object whose keys are enumerated by
  \<open>for ... in\<close> in insertion order: an association list, written with \<open>AList.update\<close>,
  which replaces the value of a key that is present and appends a new key at the end;
  its keys are the full paths of the files, taken to be ordinary property names.
  \<open>timeout\<close> holds the handle of the last timer set (\<open>None\<close> is \<open>undefined\<close>),
  \<open>conn\<close> the last client made. The last three fields are the runtime's: the timers
  that are pending with the time each is due (in ms), the number of timers made so far
  (the next handle), and the clients made so far (a client's handle is its index).
\<close>

type_synonym ledger = "string \<rightharpoonup> string"

record state =
  hashes :: "string \<rightharpoonup> string"
  updates :: "(string \<times> string) list"
  timeout :: "nat option"
  sftp_ready :: bool
  watcher_ready :: bool
  conn :: "nat option"
  timers :: "(nat \<times> nat) list"
  timer_count :: nat
  clients :: "client list"

definition init :: state where
  "init = \<lparr>hashes = Map.empty, updates = [], timeout = None, sftp_ready = False,
            watcher_ready = False, conn = None, timers = [], timer_count = 0,
            clients = []\<rparr>"

datatype effect =
    ConsoleInfo string
  | ConsoleError string
  | StdoutWrite string
  | ReadStream string
  | Connect nat conn_settings
  | OpenSftp nat
  | FastPut string string
  | ConnEnd nat
  | WatcherClose

datatype halt = Uncaught string | Exit "effect list"

subsection \<open>getRelativePath (lines 234-236)\<close>

text \<open>\<open>String.prototype.substring\<close>: both indices are clamped to the length, and
  swapped when the first is the larger.\<close>

definition substring :: "string \<Rightarrow> nat \<Rightarrow> nat \<Rightarrow> string" where
  "substring str a b =
     (let a' = min a (length str); b' = min b (length str);
          lo = min a' b'; hi = max a' b'
      in take (hi - lo) (drop lo str))"

definition backslash :: char where
  "backslash = CHR 0x5C"

text \<open>\<open>.replace(/\\/g, "/")\<close>: every backslash becomes a forward slash.\<close>

definition replace_backslashes :: "string \<Rightarrow> string" where
  "replace_backslashes str = map (\<lambda>c. if c = backslash then CHR ''/'' else c) str"

definition getRelativePath :: "string \<Rightarrow> string \<Rightarrow> string" where
  "getRelativePath root fullPath =
     replace_backslashes (substring fullPath (length root) (length fullPath))"

subsection \<open>getHash (lines 213-223)\<close>

text \<open>
  \<open>getHash\<close> opens a read stream and registers a \<open>data\<close> and an \<open>end\<close> listener, and
  nothing else. The stream's life is the list of events it emits. \<open>md5sum.update\<close>
  feeds the chunk to the hash object, so the digest at \<open>end\<close> is the digest of the
  chunks read so far, in order; the digest function itself (\<open>crypto\<close>'s MD5 in hex)
  is the parameter \<open>md5hex\<close>. The callback is called in the \<open>end\<close> listener only, with
  the digest. An \<open>error\<close> event finds no listener: the callback is not called, and
  Node.js throws the error of an \<open>error\<close> event that has no listener
  (\<open>NoListener\<close>). \<open>Reading\<close>: the stream has emitted neither so far.
\<close>

datatype stream_event = StreamData string | StreamEnd | StreamError string

datatype hash_result = Callback string | NoListener string | Reading

fun md5sum :: "(string \<Rightarrow> string) \<Rightarrow> string \<Rightarrow> stream_event list \<Rightarrow> hash_result" where
  "md5sum md5hex acc [] = Reading"
| "md5sum md5hex acc (StreamData d # es) = md5sum md5hex (acc @ d) es"
| "md5sum md5hex acc (StreamEnd # es) = Callback (md5hex acc)"
| "md5sum md5hex acc (StreamError e # es) = NoListener e"

definition getHash :: "(string \<Rightarrow> string) \<Rightarrow> stream_event list \<Rightarrow> hash_result" where
  "getHash md5hex es = md5sum md5hex [] es"

subsection \<open>The watcher's listeners (lines 63-156)\<close>

definition on_ready :: "state \<Rightarrow> state \<times> effect list" where
  "on_ready s =
     (s\<lparr>watcher_ready := True\<rparr>,
      [ConsoleInfo ''************************************************'',
       ConsoleInfo ''*  Initial scan complete. Ready for changes.   *'',
       ConsoleInfo ''************************************************''])"

text \<open>The \<open>all\<close> listener only starts \<open>getHash\<close> for an \<open>add\<close> or a \<open>change\<close>; everything
  else happens in the callback, when the stream has ended.\<close>

definition on_all :: "string \<Rightarrow> string \<Rightarrow> state \<Rightarrow> state \<times> effect list" where
  "on_all event path s =
     (if event \<in> set [''add'', ''change''] then (s, [ReadStream path]) else (s, []))"

text \<open>\<open>!v\<close> for a value that is \<open>undefined\<close> or a string: true for \<open>undefined\<close> and for
  the empty string.\<close>

definition js_not :: "string option \<Rightarrow> bool" where
  "js_not v = (case v of None \<Rightarrow> True | Some str \<Rightarrow> str = [])"

text \<open>
  The names of an Array. An array index is the decimal numeral, without a leading zero,
  of a number below \<open>2^32 - 1\<close>; a property of that name is an element.
\<close>

definition is_digit :: "char \<Rightarrow> bool" where
  "is_digit c = (c \<in> set ''0123456789'')"

definition digit_val :: "char \<Rightarrow> nat" where
  "digit_val c = length (takeWhile (\<lambda>d. d \<noteq> c) ''0123456789'')"

definition decimal :: "string \<Rightarrow> nat" where
  "decimal str = foldl (\<lambda>n c. 10 * n + digit_val c) 0 str"

definition array_index :: "string \<Rightarrow> nat option" where
  "array_index name =
     (if name \<noteq> [] \<and> list_all is_digit name \<and> (name = ''0'' \<or> hd name \<noteq> CHR ''0'')
         \<and> decimal name < 2 ^ 32 - 1
      then Some (decimal name) else None)"

text \<open>
  The length that a string assigned to \<open>length\<close> asks for: ArraySetLength reads the
  string as a number (ToNumber) and accepts an integer below \<open>2^32\<close>. The strings
  assigned here are the digests of \<open>md5sum.digest("hex")\<close>, made of the characters
  \<open>0-9\<close> and \<open>a-f\<close>: such a string is a number when it is all digits, or digits, \<open>e\<close>,
  digits (an exponent), and is NaN otherwise. The definition is exact on these
  strings; a string with any other character is taken as NaN.
\<close>

definition array_length :: "string \<Rightarrow> nat option" where
  "array_length str =
     (let m = takeWhile is_digit str; rest = dropWhile is_digit str
      in if rest = [] then (if decimal m < 2 ^ 32 then Some (decimal m) else None)
         else if m \<noteq> [] \<and> (hd rest = CHR ''e'' \<or> hd rest = CHR ''E'')
                 \<and> tl rest \<noteq> [] \<and> list_all is_digit (tl rest)
                 \<and> decimal m * 10 ^ decimal (tl rest) < 2 ^ 32
         then Some (decimal m * 10 ^ decimal (tl rest))
         else None)"

text \<open>
  \<open>hashes[name]\<close>, when the value is a string. It is not one (\<open>None\<close>) for \<open>length\<close>,
  whose value is the Array's length, a number; for \<open>__proto__\<close>, whose value is the object
  \<open>Array.prototype\<close>; and for a name the program has not assigned, whose value is
  \<open>undefined\<close> or a member the Array inherits (\<open>push\<close>, \<open>constructor\<close>, ...). The
  condition of line 86, \<open>!v || v !== hash\<close>, is true of every value that is not a
  string, as it is of \<open>undefined\<close>.
\<close>

definition array_get :: "ledger \<Rightarrow> string \<Rightarrow> string option" where
  "array_get hs name =
     (if name = ''length'' \<or> name = ''__proto__'' then None else hs name)"

text \<open>
  \<open>hashes[name] = v\<close> for a string \<open>v\<close>. For \<open>length\<close>, ArraySetLength: a RangeError
  unless \<open>v\<close> asks for a length, and then the elements at or above that length are
  deleted. For \<open>__proto__\<close> the setter of \<open>Object.prototype\<close> ignores a value that is not
  an object. Every other name gets the value as its own property.
\<close>

definition array_put :: "ledger \<Rightarrow> string \<Rightarrow> string \<Rightarrow> halt + ledger" where
  "array_put hs name v =
     (if name = ''length'' then
        (case array_length v of
           None \<Rightarrow> Inl (Uncaught ''RangeError'')
         | Some n \<Rightarrow>
             Inr (\<lambda>k. case array_index k of
                         Some i \<Rightarrow> (if n \<le> i then None else hs k)
                       | None \<Rightarrow> hs k))
      else if name = ''__proto__'' then Inr hs
      else Inr (hs(name \<mapsto> v)))"

text \<open>Lines 86-89, the ledger check: the condition of the \<open>if\<close> and the assignment in
  its body.\<close>

definition checkAndUpdate :: "ledger \<Rightarrow> string \<Rightarrow> string \<Rightarrow> halt + bool \<times> ledger" where
  "checkAndUpdate hs relativePath hash =
     (if js_not (array_get hs relativePath) \<or> array_get hs relativePath \<noteq> Some hash
      then (case array_put hs relativePath hash of
              Inl h \<Rightarrow> Inl h
            | Inr hs' \<Rightarrow> Inr (True, hs'))
      else Inr (False, hs))"

definition clearTimeout :: "nat \<Rightarrow> state \<Rightarrow> state" where
  "clearTimeout h s = s\<lparr>timers := filter (\<lambda>t. fst t \<noteq> h) (timers s)\<rparr>"

definition setTimeout :: "nat \<Rightarrow> nat \<Rightarrow> state \<Rightarrow> nat \<times> state" where
  "setTimeout now ms s =
     (timer_count s,
      s\<lparr>timers := timers s @ [(timer_count s, now + ms)],
        timer_count := Suc (timer_count s)\<rparr>)"

definition is_sep :: "char \<Rightarrow> bool" where
  "is_sep c = (c = backslash \<or> c = CHR ''/'')"

text \<open>\<open>path.replace(/^.*[\\\/]/, '')\<close>: the match starts at the beginning and runs, on
  the first line (\<open>.\<close> matches no line terminator), to the last separator.\<close>

definition filename :: "string \<Rightarrow> string" where
  "filename path =
     (let line = takeWhile (\<lambda>c. c \<noteq> CHR 0x0A \<and> c \<noteq> CHR 0x0D) path
      in if list_ex is_sep line
         then drop (length line - length (takeWhile (\<lambda>c. \<not> is_sep c) (rev line))) path
         else path)"

text \<open>Lines 91-152, what the callback does after a change has passed the check, at
  time \<open>now\<close>: behind the gate, the timer is cleared, the path is put into the batch
  and the timer is set.\<close>

definition on_change :: "config \<Rightarrow> nat \<Rightarrow> string \<Rightarrow> state \<Rightarrow> state \<times> effect list" where
  "on_change cfg now path s =
     (if watcher_ready s then
        (let relativePath = getRelativePath (localPath cfg) path;
             s2 = (case timeout s of Some h \<Rightarrow> clearTimeout h s | None \<Rightarrow> s);
             s3 = s2\<lparr>updates := AList.update path relativePath (updates s2)\<rparr>;
             (h', s4) = setTimeout now (5 * 1000) s3
         in (s4\<lparr>timeout := Some h'\<rparr>,
             [ConsoleInfo (''INFO :: file has changed '' @ filename path)]))
      else (s, []))"

text \<open>The callback given to \<open>getHash\<close> (lines 82-154), called with the digest at time
  \<open>now\<close>; \<open>path\<close> is the path of the event that started the stream. An exception of
  the assignment of line 89 leaves the callback.\<close>

definition on_hash ::
  "config \<Rightarrow> nat \<Rightarrow> string \<Rightarrow> string \<Rightarrow> state \<Rightarrow> halt + state \<times> effect list" where
  "on_hash cfg now path hash s =
     (case checkAndUpdate (hashes s) (getRelativePath (localPath cfg) path) hash of
        Inl h \<Rightarrow> Inl h
      | Inr (changed, hs) \<Rightarrow>
          (if changed then Inr (on_change cfg now path (s\<lparr>hashes := hs\<rparr>))
           else Inr (s, [])))"

subsection \<open>connectToSFTPServer and the client's listeners (lines 167-205)\<close>

definition spinner :: "char list" where
  "spinner = [CHR ''|'', CHR ''/'', CHR ''-'', backslash]"

text \<open>\<open>attempts++\<close> on a JavaScript number: exact below \<open>2^53\<close>, where adding 1 stops
  changing the value.\<close>

definition js_incr :: "nat \<Rightarrow> nat" where
  "js_incr n = (if n < 2 ^ 53 then n + 1 else n)"

definition connectToSFTPServer :: "config \<Rightarrow> state \<Rightarrow> nat \<times> state \<times> effect list" where
  "connectToSFTPServer cfg s =
     (let c = length (clients s)
      in (c,
          s\<lparr>clients := clients s @ [\<lparr>attempts = 0, ready_listeners = [MarkReady]\<rparr>]\<rparr>,
          [Connect c (connSettings cfg)]))"

definition on_conn_error :: "config \<Rightarrow> nat \<Rightarrow> state \<Rightarrow> state \<times> effect list" where
  "on_conn_error cfg c s =
     (let n = attempts (clients s ! c)
      in (s\<lparr>sftp_ready := False,
            clients := (clients s)[c := (clients s ! c)\<lparr>attempts := js_incr n\<rparr>]\<rparr>,
          [StdoutWrite (''Unable to communicate with sftp server. Retrying ''
                        @ [spinner ! (n mod 4)] @ CHR 0x1B # ''[0G''),
           Connect c (connSettings cfg)]))"

fun on_listener :: "nat \<Rightarrow> listener \<Rightarrow> state \<Rightarrow> halt + state \<times> effect list" where
  "on_listener c MarkReady s =
     Inr (s\<lparr>sftp_ready := True,
            clients := (clients s)[c := (clients s ! c)\<lparr>attempts := 0\<rparr>]\<rparr>, [])"
| "on_listener c Drain s =
     (case conn s of
        None \<Rightarrow> Inl (Uncaught ''TypeError'')
      | Some g \<Rightarrow> Inr (s, [OpenSftp g]))"

text \<open>\<open>emit("ready")\<close>: the listeners run in the order of their registration.\<close>

fun emit_ready :: "nat \<Rightarrow> listener list \<Rightarrow> state \<Rightarrow> halt + state \<times> effect list" where
  "emit_ready c [] s = Inr (s, [])"
| "emit_ready c (l # ls) s =
     (case on_listener c l s of
        Inl h \<Rightarrow> Inl h
      | Inr (s1, e1) \<Rightarrow>
          (case emit_ready c ls s1 of
             Inl h \<Rightarrow> Inl h
           | Inr (s2, e2) \<Rightarrow> Inr (s2, e1 @ e2)))"

definition on_conn_ready :: "nat \<Rightarrow> state \<Rightarrow> halt + state \<times> effect list" where
  "on_conn_ready c s = emit_ready c (ready_listeners (clients s ! c)) s"

subsection \<open>The timer's callback and the drain (lines 113-150)\<close>

definition on_timeout :: "config \<Rightarrow> state \<Rightarrow> state \<times> effect list" where
  "on_timeout cfg s =
     (let (c, s1, e) = connectToSFTPServer cfg s;
          s2 = s1\<lparr>conn := Some c\<rparr>;
          cl = clients s2 ! c
      in (s2\<lparr>clients := (clients s2)[c := cl\<lparr>ready_listeners := ready_listeners cl @ [Drain]\<rparr>]\<rparr>,
          e))"

text \<open>The callback of \<open>conn.sftp\<close>, with its arguments \<open>err\<close> and \<open>sftp\<close> (\<open>None\<close> is
  \<open>undefined\<close>). The loop calls \<open>sftp.fastPut\<close> for every key of \<open>updates\<close>; with \<open>sftp\<close>
  undefined the first call throws.\<close>

definition on_sftp ::
  "config \<Rightarrow> string option \<Rightarrow> nat option \<Rightarrow> state \<Rightarrow> halt + state \<times> effect list" where
  "on_sftp cfg err sftp s =
     (if sftp = None \<and> updates s \<noteq> [] then Inl (Uncaught ''TypeError'')
      else Inr (s\<lparr>updates := []\<rparr>,
                (case err of Some e \<Rightarrow> [ConsoleError e] | None \<Rightarrow> [])
                @ [StdoutWrite ''Writing files to sftp server '']
                @ map (\<lambda>(path, rel). FastPut path (remotePath cfg @ rel)) (updates s)
                @ [StdoutWrite (''........................ done'' @ [CHR 0x0A])]))"

text \<open>The callback of one \<open>sftp.fastPut\<close> (lines 128-135).\<close>

definition on_fastPut :: "string option \<Rightarrow> state \<Rightarrow> state \<times> effect list" where
  "on_fastPut err s = (s, case err of Some e \<Rightarrow> [ConsoleError e] | None \<Rightarrow> [])"

subsection \<open>The SIGINT listener (lines 38-55)\<close>

definition on_sigint :: "state \<Rightarrow> halt" where
  "on_sigint s =
     (if sftp_ready s \<and> conn s = None then Uncaught ''TypeError''
      else Exit ([ConsoleInfo ''Shutting down...'']
                 @ (if sftp_ready s
                    then [ConsoleInfo ''Closing SFTP connection...'', ConnEnd (the (conn s))]
                    else [])
                 @ (if watcher_ready s
                    then [ConsoleInfo ''Closing watcher...'', WatcherClose]
                    else [])
                 @ [ConsoleInfo ''Exiting application...'']))"

subsection \<open>The event loop\<close>

text \<open>
  What the runtime can deliver: the watcher's events, the end of the stream that
  \<open>getHash\<close> opened for a path, a timer, a client's \<open>ready\<close> or \<open>error\<close>, the callback of
  \<open>conn.sftp\<close>, the callback of one \<open>fastPut\<close>, and SIGINT. A timer fires only while it
  is pending and not before it is due, and is no longer pending once it has fired; a
  client that was never made emits nothing.
\<close>

datatype event =
    WatcherReady
  | WatcherAll string string
  | Stream string hash_result
  | TimerFire nat
  | ConnReady nat
  | ConnError nat
  | SftpCallback "string option" "nat option"
  | FastPutCallback "string option"
  | Sigint

definition due :: "nat \<Rightarrow> nat \<Rightarrow> state \<Rightarrow> bool" where
  "due now h s = list_ex (\<lambda>t. fst t = h \<and> snd t \<le> now) (timers s)"

fun step :: "config \<Rightarrow> nat \<Rightarrow> event \<Rightarrow> state \<Rightarrow> halt + state \<times> effect list" where
  "step cfg now WatcherReady s = Inr (on_ready s)"
| "step cfg now (WatcherAll ev path) s = Inr (on_all ev path s)"
| "step cfg now (Stream path (Callback hash)) s = on_hash cfg now path hash s"
| "step cfg now (Stream path (NoListener e)) s = Inl (Uncaught e)"
| "step cfg now (Stream path Reading) s = Inr (s, [])"
| "step cfg now (TimerFire h) s =
     (if due now h s then Inr (on_timeout cfg (clearTimeout h s)) else Inr (s, []))"
| "step cfg now (ConnReady c) s =
     (if c < length (clients s) then on_conn_ready c s else Inr (s, []))"
| "step cfg now (ConnError c) s =
     (if c < length (clients s) then Inr (on_conn_error cfg c s) else Inr (s, []))"
| "step cfg now (SftpCallback err sftp) s = on_sftp cfg err sftp s"
| "step cfg now (FastPutCallback err) s = Inr (on_fastPut err s)"
| "step cfg now Sigint s = Inl (on_sigint s)"

text \<open>A run: the events with the time of each, handled one after the other.\<close>

fun run :: "config \<Rightarrow> state \<Rightarrow> (nat \<times> event) list \<Rightarrow> halt + state \<times> effect list" where
  "run cfg s [] = Inr (s, [])"
| "run cfg s ((now, ev) # evs) =
     (case step cfg now ev s of
        Inl h \<Rightarrow> Inl h
      | Inr (s1, e1) \<Rightarrow>
          (case run cfg s1 evs of
             Inl h \<Rightarrow> Inl h
           | Inr (s2, e2) \<Rightarrow> Inr (s2, e1 @ e2)))"


subsection \<open>What holds of every state the program reaches\<close>

text \<open>
  Every pending timer is the one whose handle \<open>timeout\<close> holds; the keys of \<open>updates\<close>
  are distinct and each value is the key's relative path; every client has the two
  \<open>ready\<close> listeners, and \<open>conn\<close> is the client made last.
\<close>

definition timers_ok :: "state \<Rightarrow> bool" where
  "timers_ok s = list_all (\<lambda>t. timeout s = Some (fst t)) (timers s)"

definition batch_ok :: "config \<Rightarrow> state \<Rightarrow> bool" where
  "batch_ok cfg s =
     (distinct (map fst (updates s))
      \<and> list_all (\<lambda>u. snd u = getRelativePath (localPath cfg) (fst u)) (updates s))"

definition clients_ok :: "state \<Rightarrow> bool" where
  "clients_ok s =
     (list_all (\<lambda>cl. ready_listeners cl = [MarkReady, Drain]) (clients s)
      \<and> conn s = (if clients s = [] then None else Some (length (clients s) - 1)))"

definition inv :: "config \<Rightarrow> state \<Rightarrow> bool" where
  "inv cfg s = (timers_ok s \<and> batch_ok cfg s \<and> clients_ok s)"

subsection \<open>Example inputs\<close>

definition cfg0 :: config where
  "cfg0 = \<lparr>localPath = ''/proj/src'', remotePath = ''/var/www/app'', sftp_host = ''example.org'',
           sftp_port = 22, sftp_username = ''deploy'', sftp_password = ''secret''\<rparr>"

definition cfg1 :: config where
  "cfg1 = \<lparr>localPath = ''C:'', remotePath = ''/srv'', sftp_host = ''10.0.0.7'',
           sftp_port = 2222, sftp_username = ''ci'', sftp_password = ''pw''\<rparr>"

definition index_html :: string where
  "index_html = ''/proj/src/index.html''"

definition win_path :: string where
  "win_path = ''C:'' @ backslash # ''site'' @ backslash # ''a.css''"

definition ready0 :: state where
  "ready0 = init\<lparr>watcher_ready := True\<rparr>"

definition armed :: state where
  "armed = init\<lparr>hashes := [''/index.html'' \<mapsto> ''0f''],
                updates := [(index_html, ''/index.html'')],
                timeout := Some 0, watcher_ready := True,
                timers := [(0, 5010)], timer_count := 1\<rparr>"

definition batched :: state where
  "batched = init\<lparr>hashes := [''/index.html'' \<mapsto> ''a7''],
                  updates := [(index_html, ''/index.html'')],
                  timeout := Some 1, watcher_ready := True,
                  timers := [(1, 7000)], timer_count := 2\<rparr>"

definition uploaded :: state where
  "uploaded = init\<lparr>hashes := [''/index.html'' \<mapsto> ''a7''],
                   updates := [(index_html, ''/index.html'')],
                   timeout := Some 1, watcher_ready := True, conn := Some 0,
                   timer_count := 2,
                   clients := [\<lparr>attempts = 0, ready_listeners = [MarkReady, Drain]\<rparr>]\<rparr>"

definition three_files :: state where
  "three_files = init\<lparr>watcher_ready := True,
                       updates := [(''/proj/src/a.js'', ''/a.js''),
                                   (''/proj/src/b.js'', ''/b.js''),
                                   (''/proj/src/c.js'', ''/c.js'')]\<rparr>"



definition scan_then_ready :: "(nat \<times> event) list" where
  "scan_then_ready =
     [(0, WatcherAll ''add'' index_html),
      (1, WatcherReady),
      (2, Stream index_html (Callback ''0f'')),
      (5002, TimerFire 0),
      (5003, ConnReady 0),
      (5004, SftpCallback None (Some 0))]"

definition reconnect :: "(nat \<times> event) list" where
  "reconnect =
     [(0, WatcherReady),
      (10, Stream index_html (Callback ''0f'')),
      (5010, TimerFire 0),
      (5200, ConnReady 0),
      (5300, SftpCallback None (Some 0)),
      (20000, Stream index_html (Callback ''a7'')),
      (21000, ConnError 0),
      (21100, ConnReady 0),
      (21200, SftpCallback None (Some 0))]"

definition cfg_slash :: config where
  "cfg_slash = \<lparr>localPath = ''/proj/src/'', remotePath = ''/var/www/app/'',
                sftp_host = ''example.org'', sftp_port = 22, sftp_username = ''deploy'',
                sftp_password = ''secret''\<rparr>"

definition proto_twice :: "(nat \<times> event) list" where
  "proto_twice =
     [(0, WatcherReady),
      (1, WatcherAll ''change'' ''/proj/src/__proto__''),
      (2, Stream ''/proj/src/__proto__'' (Callback ''0f'')),
      (3, WatcherAll ''change'' ''/proj/src/__proto__''),
      (4, Stream ''/proj/src/__proto__'' (Callback ''0f''))]"

definition length_added :: "(nat \<times> event) list" where
  "length_added =
     [(0, WatcherAll ''add'' ''/proj/src/length''),
      (1, Stream ''/proj/src/length'' (Callback ''d41d8cd98f00b204e9800998ecf8427e''))]"

definition armed0 :: state where
  "armed0 = init\<lparr>hashes := [''/index.html'' \<mapsto> ''0f''],
                 updates := [(index_html, ''/index.html'')],
                 timeout := Some 0, watcher_ready := True,
                 timers := [(0, 5000)], timer_count := 1\<rparr>"




section \<open>Facts about the callbacks\<close>

subsection \<open>Strings and lists\<close>

lemmas handler_defs =
  on_ready_def on_all_def on_hash_def on_change_def checkAndUpdate_def js_not_def
  array_get_def array_put_def clearTimeout_def
  setTimeout_def getRelativePath_def substring_def replace_backslashes_def backslash_def
  filename_def is_sep_def on_timeout_def connectToSFTPServer_def connSettings_def
  on_conn_ready_def on_conn_error_def on_sftp_def on_fastPut_def due_def js_incr_def
  spinner_def Let_def




lemma md5sum_chunks:
  "md5sum md5hex acc (map StreamData chunks @ es) = md5sum md5hex (acc @ concat chunks) es"
  by (induction chunks arbitrary: acc) simp_all

text \<open>The callback is called at the stream's end, with the digest of all the bytes
  read, and at no other time: not for a stream that fails, not before the end.\<close>

lemma getHash_callback:
  "getHash md5hex (map StreamData chunks @ StreamEnd # rest) = Callback (md5hex (concat chunks))
   \<and> (\<forall>h. getHash md5hex (map StreamData chunks @ StreamError e # rest) \<noteq> Callback h)
   \<and> (\<forall>h. getHash md5hex (map StreamData chunks) \<noteq> Callback h)"
  using md5sum_chunks [of md5hex "[]" chunks "[]"]
  by (simp add: getHash_def md5sum_chunks)



lemma set_update_sub: "set (AList.update k v al) \<subseteq> insert (k, v) (set al)"
  by (induction al) auto

lemma update_all:
  "list_all P al \<Longrightarrow> P (k, v) \<Longrightarrow> list_all P (AList.update k v al)"
  using set_update_sub [of k v al] by (auto simp: list_all_iff)

lemma update_attempts_listeners:
  "list_all (\<lambda>cl. ready_listeners cl = ls) cls \<Longrightarrow> c < length cls \<Longrightarrow>
   list_all (\<lambda>cl. ready_listeners cl = ls) (cls[c := (cls ! c)\<lparr>attempts := n\<rparr>])"
  by (auto simp: list_all_iff dest!: set_update_subset_insert [THEN subsetD])


subsection \<open>The callbacks, case by case\<close>

lemma checkAndUpdate_ordinary:
  assumes "rp \<noteq> ''length''" and "rp \<noteq> ''__proto__''"
  shows "checkAndUpdate hs rp hash =
           (if js_not (hs rp) \<or> hs rp \<noteq> Some hash then Inr (True, hs(rp \<mapsto> hash))
            else Inr (False, hs))"
  using assms by (auto simp: checkAndUpdate_def array_get_def array_put_def)

lemma on_change_ready:
  assumes "watcher_ready s"
  shows "on_change cfg now path s =
           (s\<lparr>updates := AList.update path (getRelativePath (localPath cfg) path) (updates s),
              timers := (case timeout s of Some h \<Rightarrow> filter (\<lambda>t. fst t \<noteq> h) (timers s)
                         | None \<Rightarrow> timers s) @ [(timer_count s, now + 5000)],
              timer_count := Suc (timer_count s),
              timeout := Some (timer_count s)\<rparr>,
            [ConsoleInfo (''INFO :: file has changed '' @ filename path)])"
  using assms
  by (auto simp: on_change_def Let_def setTimeout_def clearTimeout_def split: option.splits)

lemma on_hash_changed:
  assumes "checkAndUpdate (hashes s) (getRelativePath (localPath cfg) path) hash = Inr (True, hs)"
  shows "on_hash cfg now path hash s = Inr (on_change cfg now path (s\<lparr>hashes := hs\<rparr>))"
  using assms by (simp add: on_hash_def)

lemma on_hash_unchanged:
  assumes "array_get (hashes s) (getRelativePath (localPath cfg) path) = Some hash"
    and "hash \<noteq> []"
  shows "on_hash cfg now path hash s = Inr (s, [])"
  using assms by (simp add: on_hash_def checkAndUpdate_def js_not_def)

lemma on_hash_before_ready:
  assumes "\<not> watcher_ready s"
  shows "on_hash cfg now path hash s =
           (case checkAndUpdate (hashes s) (getRelativePath (localPath cfg) path) hash of
              Inl h \<Rightarrow> Inl h
            | Inr (changed, hs) \<Rightarrow> Inr (s\<lparr>hashes := hs\<rparr>, []))"
proof (cases "checkAndUpdate (hashes s) (getRelativePath (localPath cfg) path) hash")
  case (Inl h)
  then show ?thesis by (simp add: on_hash_def)
next
  case (Inr r)
  obtain changed hs where r: "r = (changed, hs)" by (cases r)
  have "\<not> changed \<Longrightarrow> hs = hashes s"
    using Inr r by (auto simp: checkAndUpdate_def split: if_splits sum.splits)
  with Inr r assms show ?thesis by (cases changed) (simp_all add: on_hash_def on_change_def)
qed

lemma on_hash_cases:
  assumes "on_hash cfg now path hash s = Inr (s', es)"
  shows "(s' = s \<and> es = [])
         \<or> (\<exists>hs. s' = fst (on_change cfg now path (s\<lparr>hashes := hs\<rparr>))
                 \<and> es = snd (on_change cfg now path (s\<lparr>hashes := hs\<rparr>)))"
proof (cases "checkAndUpdate (hashes s) (getRelativePath (localPath cfg) path) hash")
  case (Inl h)
  with assms show ?thesis by (simp add: on_hash_def)
next
  case (Inr r)
  obtain changed hs where r: "r = (changed, hs)" by (cases r)
  show ?thesis
  proof (cases changed)
    case True
    with Inr r assms have "on_change cfg now path (s\<lparr>hashes := hs\<rparr>) = (s', es)"
      by (simp add: on_hash_def)
    then have "s' = fst (on_change cfg now path (s\<lparr>hashes := hs\<rparr>))
               \<and> es = snd (on_change cfg now path (s\<lparr>hashes := hs\<rparr>))"
      by simp
    then show ?thesis by blast
  next
    case False
    with Inr r assms show ?thesis by (simp add: on_hash_def)
  qed
qed



lemma timers_ok_cleared:
  assumes "timers_ok s"
  shows "(case timeout s of Some h \<Rightarrow> filter (\<lambda>t. fst t \<noteq> h) (timers s) | None \<Rightarrow> timers s) = []"
proof (cases "timeout s")
  case None
  with assms show ?thesis by (cases "timers s") (auto simp: timers_ok_def)
next
  case (Some h)
  with assms have "\<forall>t\<in>set (timers s). fst t = h" by (auto simp: timers_ok_def list_all_iff)
  then have "filter (\<lambda>t. fst t \<noteq> h) (timers s) = []" by (auto simp: filter_empty_conv)
  with Some show ?thesis by simp
qed

lemma on_change_rearm:
  assumes "timers_ok s" and "watcher_ready s"
  shows "timers (fst (on_change cfg now path s)) = [(timer_count s, now + 5000)]"
    and "timeout (fst (on_change cfg now path s)) = Some (timer_count s)"
    and "timer_count (fst (on_change cfg now path s)) = Suc (timer_count s)"
    and "watcher_ready (fst (on_change cfg now path s))"
    and "hashes (fst (on_change cfg now path s)) = hashes s"
  using on_change_ready [OF assms(2), of cfg now path] timers_ok_cleared [OF assms(1)] assms(2)
  by simp_all

lemma not_due_before:
  assumes "timers s = [(k, d)]" and "t < d"
  shows "step cfg t (TimerFire h) s = Inr (s, [])"
  using assms by (simp add: due_def)

lemma due_after:
  assumes "timers s = [(k, d)]" and "d \<le> t"
  shows "step cfg t (TimerFire k) s = Inr (on_timeout cfg (clearTimeout k s))"
  using assms by (simp add: due_def)


lemma on_timeout_effects: "snd (on_timeout cfg s) = [Connect (length (clients s)) (connSettings cfg)]"
  by (simp add: on_timeout_def connectToSFTPServer_def Let_def)

lemma on_sftp_eq:
  "on_sftp cfg err (Some k) s =
     Inr (s\<lparr>updates := []\<rparr>,
          (case err of Some e \<Rightarrow> [ConsoleError e] | None \<Rightarrow> [])
          @ [StdoutWrite ''Writing files to sftp server '']
          @ map (\<lambda>(path, rel). FastPut path (remotePath cfg @ rel)) (updates s)
          @ [StdoutWrite (''........................ done'' @ [CHR 0x0A])])"
  by (simp add: on_sftp_def)

lemma fastPut_callbacks_run:
  "run cfg s (map (\<lambda>(t, e). (t, FastPutCallback e)) outcomes) =
     Inr (s, concat (map (\<lambda>(t, e). case e of Some m \<Rightarrow> [ConsoleError m] | None \<Rightarrow> [])
                        outcomes))"
  by (induction outcomes) (auto simp: on_fastPut_def)


lemma on_conn_ready_eq:
  assumes "clients_ok s" and "c < length (clients s)"
  shows "on_conn_ready c s =
           Inr (s\<lparr>sftp_ready := True,
                  clients := (clients s)[c := (clients s ! c)\<lparr>attempts := 0\<rparr>]\<rparr>,
                [OpenSftp (length (clients s) - 1)])"
proof -
  from assms have l: "ready_listeners (clients s ! c) = [MarkReady, Drain]"
    by (simp add: clients_ok_def list_all_length)
  from assms have g: "conn s = Some (length (clients s) - 1)"
    by (auto simp: clients_ok_def)
  show ?thesis by (simp add: on_conn_ready_def l g)
qed

lemma on_listener_frame:
  "on_listener c l s = Inr (s', es) \<Longrightarrow>
     hashes s' = hashes s \<and> updates s' = updates s \<and> timers s' = timers s
     \<and> timeout s' = timeout s \<and> (\<forall>p d. FastPut p d \<notin> set es)"
  by (cases l) (auto split: option.splits)

lemma emit_ready_frame:
  "emit_ready c ls s = Inr (s', es) \<Longrightarrow>
     hashes s' = hashes s \<and> updates s' = updates s \<and> timers s' = timers s
     \<and> timeout s' = timeout s \<and> (\<forall>p d. FastPut p d \<notin> set es)"
proof (induction ls arbitrary: s es)
  case Nil
  then show ?case by simp
next
  case (Cons l ls)
  from Cons.prems obtain s1 e1 e2 where
    a: "on_listener c l s = Inr (s1, e1)" and b: "emit_ready c ls s1 = Inr (s', e2)"
    and c: "es = e1 @ e2"
    by (auto split: sum.splits)
  from on_listener_frame [OF a] Cons.IH [OF b] c show ?case by simp
qed

subsection \<open>Reachable states\<close>

lemma inv_init: "inv cfg init"
  by (simp add: inv_def timers_ok_def batch_ok_def clients_ok_def init_def)

lemma on_change_timers:
  assumes "timers_ok s"
  shows "timers_ok (fst (on_change cfg now path s))"
  using assms
  by (auto simp: on_change_def Let_def timers_ok_def setTimeout_def clearTimeout_def list_all_iff
           split: prod.splits option.splits)

lemma on_change_batch:
  assumes "batch_ok cfg s"
  shows "batch_ok cfg (fst (on_change cfg now path s))"
  using assms
  by (auto simp: on_change_def Let_def batch_ok_def setTimeout_def clearTimeout_def
                 distinct_update update_all
           split: prod.splits option.splits)

lemma on_change_clients:
  assumes "clients_ok s"
  shows "clients_ok (fst (on_change cfg now path s))"
  using assms
  by (auto simp: on_change_def Let_def clients_ok_def setTimeout_def clearTimeout_def
           split: prod.splits option.splits)

lemma on_change_inv: "inv cfg s \<Longrightarrow> inv cfg (fst (on_change cfg now path s))"
  by (simp add: inv_def on_change_timers on_change_batch on_change_clients)

lemma hashes_inv: "inv cfg (s\<lparr>hashes := hs\<rparr>) = inv cfg s"
  by (simp add: inv_def timers_ok_def batch_ok_def clients_ok_def)

lemma on_hash_inv:
  assumes "inv cfg s" and "on_hash cfg now path hash s = Inr (s', es)"
  shows "inv cfg s'"
  using on_hash_cases [OF assms(2)] assms(1) on_change_inv hashes_inv by auto

lemma on_timeout_inv:
  assumes "inv cfg s" and "on_timeout cfg (clearTimeout h s) = (s', es)"
  shows "inv cfg s'"
  using assms
  by (auto simp: inv_def on_timeout_def connectToSFTPServer_def clearTimeout_def Let_def
                 timers_ok_def batch_ok_def clients_ok_def list_all_iff nth_append)

lemma on_conn_error_inv:
  assumes "inv cfg s" and "c < length (clients s)" and "on_conn_error cfg c s = (s', es)"
  shows "inv cfg s'"
  using assms
  by (auto simp: inv_def on_conn_error_def Let_def timers_ok_def batch_ok_def clients_ok_def
                 update_attempts_listeners)

lemma on_conn_ready_inv:
  assumes "inv cfg s" and "c < length (clients s)"
    and "on_conn_ready c s = Inr (s', es)"
  shows "inv cfg s'"
proof -
  from assms have "clients_ok s" by (simp add: inv_def)
  from on_conn_ready_eq [OF this assms(2)] assms(3)
  have "s' = s\<lparr>sftp_ready := True,
                 clients := (clients s)[c := (clients s ! c)\<lparr>attempts := 0\<rparr>]\<rparr>"
    by simp
  with assms(1,2) show ?thesis
    by (auto simp: inv_def timers_ok_def batch_ok_def clients_ok_def update_attempts_listeners)
qed

lemma on_sftp_inv:
  assumes "inv cfg s" and "on_sftp cfg err sftp s = Inr (s', es)"
  shows "inv cfg s'"
  using assms
  by (auto simp: inv_def on_sftp_def timers_ok_def batch_ok_def clients_ok_def split: if_splits)

lemma step_inv:
  assumes "inv cfg s" and "step cfg now ev s = Inr (s', es)"
  shows "inv cfg s'"
proof (cases ev)
  case WatcherReady
  with assms show ?thesis
    by (auto simp: on_ready_def inv_def timers_ok_def batch_ok_def clients_ok_def)
next
  case (WatcherAll e p)
  with assms show ?thesis by (auto simp: on_all_def split: if_splits)
next
  case (Stream p r)
  with assms show ?thesis
    using on_hash_inv [of cfg s now p _ s' es] by (cases r) auto
next
  case (TimerFire h)
  with assms show ?thesis
    using on_timeout_inv [of cfg s h s' es] by (auto split: if_splits)
next
  case (ConnReady c)
  with assms show ?thesis
    using on_conn_ready_inv [of cfg s c s' es] by (auto split: if_splits)
next
  case (ConnError c)
  with assms show ?thesis
    using on_conn_error_inv [of cfg s c s' es] by (auto split: if_splits)
next
  case (SftpCallback err sftp)
  with assms show ?thesis using on_sftp_inv [of cfg s err sftp s' es] by simp
next
  case (FastPutCallback err)
  with assms show ?thesis by (auto simp: on_fastPut_def)
next
  case Sigint
  with assms show ?thesis by simp
qed

lemma run_inv:
  "inv cfg s \<Longrightarrow> run cfg s evs = Inr (s', es) \<Longrightarrow> inv cfg s'"
proof (induction evs arbitrary: s es)
  case Nil
  then show ?case by simp
next
  case (Cons a evs)
  obtain now ev where a: "a = (now, ev)" by (cases a)
  from Cons.prems(2) a obtain s1 e1 where s1: "step cfg now ev s = Inr (s1, e1)"
    by (auto split: sum.splits)
  with Cons.prems(2) a obtain e2 where "run cfg s1 evs = Inr (s', e2)"
    by (auto split: sum.splits)
  moreover from step_inv [OF Cons.prems(1) s1] have "inv cfg s1" .
  ultimately show ?case using Cons.IH by blast
qed



subsection \<open>Runs\<close>



lemma step_ledger_frame:
  assumes "step cfg now ev s = Inr (s', es)" and "\<forall>q h. ev \<noteq> Stream q (Callback h)"
  shows "hashes s' = hashes s"
proof (cases ev)
  case (Stream q r)
  with assms show ?thesis by (cases r) simp_all
next
  case (SftpCallback err sftp)
  with assms(1) show ?thesis by (auto simp: on_sftp_def split: if_splits)
next
  case (ConnReady c)
  show ?thesis
  proof (cases "c < length (clients s)")
    case True
    with ConnReady assms(1)
    have "emit_ready c (ready_listeners (clients s ! c)) s = Inr (s', es)"
      by (simp add: on_conn_ready_def)
    from emit_ready_frame [OF this] show ?thesis by simp
  next
    case False
    with ConnReady assms show ?thesis by simp
  qed
next
  case WatcherReady
  with assms(1) show ?thesis by (auto simp: on_ready_def)
next
  case (WatcherAll e q)
  with assms(1) show ?thesis by (auto simp: on_all_def split: if_splits)
next
  case (TimerFire h)
  with assms(1) show ?thesis
    by (auto simp: on_timeout_def connectToSFTPServer_def clearTimeout_def Let_def
             split: if_splits)
next
  case (ConnError c)
  with assms(1) show ?thesis by (auto simp: on_conn_error_def Let_def split: if_splits)
next
  case (FastPutCallback err)
  with assms(1) show ?thesis by (auto simp: on_fastPut_def)
next
  case Sigint
  with assms show ?thesis by simp
qed


section \<open>The claims\<close>

subsection \<open>The ledger check\<close>

text \<open>For every name but \<open>length\<close> and \<open>__proto__\<close>, and every digest (a digest is not the
  empty string), the check returns true if and only if no digest is stored for the
  path or the stored one differs; in exactly those cases the new digest is stored, and
  otherwise the ledger is left as it was; a second check with the same digest returns
  false.\<close>

lemma ledger_check_ordinary:
  assumes "hash \<noteq> []" and "rp \<noteq> ''length''" and "rp \<noteq> ''__proto__''"
  shows "checkAndUpdate hs rp hash =
           Inr (if hs rp = None \<or> (\<exists>h. hs rp = Some h \<and> h \<noteq> hash)
                then (True, hs(rp \<mapsto> hash)) else (False, hs))
         \<and> checkAndUpdate (hs(rp \<mapsto> hash)) rp hash = Inr (False, hs(rp \<mapsto> hash))"
proof -
  have a: "checkAndUpdate hs rp hash =
           Inr (if hs rp = None \<or> (\<exists>h. hs rp = Some h \<and> h \<noteq> hash)
                then (True, hs(rp \<mapsto> hash)) else (False, hs))"
    using assms by (cases "hs rp") (auto simp: checkAndUpdate_ordinary js_not_def)
  have b: "checkAndUpdate (hs(rp \<mapsto> hash)) rp hash = Inr (False, hs(rp \<mapsto> hash))"
    using assms by (simp add: checkAndUpdate_ordinary js_not_def)
  from a b show ?thesis by blast
qed

text \<open>
  C1. The ledger is an Array (\<open>hashes = []\<close>, line 18), and the claim fails for the two
  names that an Array does not treat as properties of its own. For the relative path
  \<open>__proto__\<close> the check returns true and the assignment of line 89 is ignored: the
  digest is not stored, and the same digest passes the check every time, so a file of
  that name that has not changed is put into the batch at every event. For the
  relative path \<open>length\<close> the assignment throws a RangeError (here with the MD5 of the
  empty file), which ends the process. Both names are relative paths when the local
  root ends with a separator.
\<close>

theorem ledger_array_names:
  "checkAndUpdate Map.empty ''__proto__'' ''0f'' = Inr (True, Map.empty)
   \<and> checkAndUpdate Map.empty ''length'' ''d41d8cd98f00b204e9800998ecf8427e''
       = Inl (Uncaught ''RangeError'')
   \<and> run cfg_slash init proto_twice =
       Inr (\<lparr>hashes = Map.empty, updates = [(''/proj/src/__proto__'', ''__proto__'')],
             timeout = Some 1, sftp_ready = False, watcher_ready = True, conn = None,
             timers = [(1, 5004)], timer_count = 2, clients = []\<rparr>,
            [ConsoleInfo ''************************************************'',
             ConsoleInfo ''*  Initial scan complete. Ready for changes.   *'',
             ConsoleInfo ''************************************************'',
             ReadStream ''/proj/src/__proto__'',
             ConsoleInfo ''INFO :: file has changed __proto__'',
             ReadStream ''/proj/src/__proto__'',
             ConsoleInfo ''INFO :: file has changed __proto__''])
   \<and> run cfg_slash init length_added = Inl (Uncaught ''RangeError'')"
  by (simp add: proto_twice_def length_added_def handler_defs cfg_slash_def init_def
        array_length_def is_digit_def)

subsection \<open>The batch and its drain\<close>



subsection \<open>Events of the initial scan\<close>

text \<open>
  C3. The gate \<open>if (watcher_ready)\<close> is read in the callback of \<open>getHash\<close>, when the
  stream has ended (\<open>on_hash_before_ready\<close>: a callback that runs before \<open>ready\<close>
  stores the digest and does nothing else). An \<open>add\<close> event of the initial scan is
  delivered before \<open>ready\<close>; when its stream ends after \<open>ready\<close>, the path is put in the
  batch and the timer is armed (the first three events), and the file is uploaded.
\<close>

theorem scan_event_batched_after_ready:
  "run cfg0 init scan_then_ready =
     Inr (\<lparr>hashes = [''/index.html'' \<mapsto> ''0f''], updates = [], timeout = Some 0,
           sftp_ready = True, watcher_ready = True, conn = Some 0, timers = [],
           timer_count = 1,
           clients = [\<lparr>attempts = 0, ready_listeners = [MarkReady, Drain]\<rparr>]\<rparr>,
          [ReadStream ''/proj/src/index.html'',
           ConsoleInfo ''************************************************'',
           ConsoleInfo ''*  Initial scan complete. Ready for changes.   *'',
           ConsoleInfo ''************************************************'',
           ConsoleInfo ''INFO :: file has changed index.html'',
           Connect 0 (''example.org'', 22, ''deploy'', ''secret''),
           OpenSftp 0,
           StdoutWrite ''Writing files to sftp server '',
           FastPut ''/proj/src/index.html'' ''/var/www/app/index.html'',
           StdoutWrite (''........................ done'' @ [CHR 0x0A])])
   \<and> run cfg0 init (take 3 scan_then_ready) =
     Inr (\<lparr>hashes = [''/index.html'' \<mapsto> ''0f''],
           updates = [(''/proj/src/index.html'', ''/index.html'')], timeout = Some 0,
           sftp_ready = False, watcher_ready = True, conn = None, timers = [(0, 5002)],
           timer_count = 1, clients = []\<rparr>,
          [ReadStream ''/proj/src/index.html'',
           ConsoleInfo ''************************************************'',
           ConsoleInfo ''*  Initial scan complete. Ready for changes.   *'',
           ConsoleInfo ''************************************************'',
           ConsoleInfo ''INFO :: file has changed index.html''])"
  by (simp add: scan_then_ready_def handler_defs cfg0_def init_def index_html_def)

subsection \<open>The debounce timer\<close>

text \<open>
  C4 (as amended). Every qualifying change after readiness cancels the pending timer
  and arms a new one that is due a full window after the change. The window is the
  constant 5000 ms of the source (\<open>5 * 1000\<close>); no configuration value changes it. So
  the timer's callback, which makes the connection for the drain, runs only after a
  full window with no qualifying change in between: after changes at \<open>T\<close> and
  \<open>T + (5000 - e)\<close> the only pending timer is due at \<open>T + (5000 - e) + 5000\<close>, and no
  timer fires before that; after the first change alone, none fires before \<open>T + 5000\<close>.
\<close>

theorem debounce_rearm:
  assumes "timers_ok s" and "watcher_ready s"
    and "checkAndUpdate (hashes s) (getRelativePath (localPath cfg) path) hash = Inr (True, hs1)"
    and "s1 = fst (on_change cfg T path (s\<lparr>hashes := hs1\<rparr>))"
    and "checkAndUpdate (hashes s1) (getRelativePath (localPath cfg) path2) hash2
           = Inr (True, hs2)"
    and "e \<le> 5000"
    and "s2 = fst (on_change cfg (T + (5000 - e)) path2 (s1\<lparr>hashes := hs2\<rparr>))"
  shows "(\<exists>es. on_hash cfg T path hash s = Inr (s1, es))
         \<and> (\<exists>es. on_hash cfg (T + (5000 - e)) path2 hash2 s1 = Inr (s2, es))
         \<and> timers s1 = [(timer_count s, T + 5000)]
         \<and> timeout s1 = Some (timer_count s)
         \<and> (\<forall>h t. t < T + 5000 \<longrightarrow> step cfg t (TimerFire h) s1 = Inr (s1, []))
         \<and> (\<forall>t. T + 5000 \<le> t \<longrightarrow>
              step cfg t (TimerFire (timer_count s)) s1
                = Inr (on_timeout cfg (clearTimeout (timer_count s) s1)))
         \<and> timers s2 = [(Suc (timer_count s), T + (5000 - e) + 5000)]
         \<and> timeout s2 = Some (Suc (timer_count s))
         \<and> (\<forall>h t. t < T + (5000 - e) + 5000 \<longrightarrow> step cfg t (TimerFire h) s2 = Inr (s2, []))"
proof -
  have ok0: "timers_ok (s\<lparr>hashes := hs1\<rparr>)" and w0: "watcher_ready (s\<lparr>hashes := hs1\<rparr>)"
    using assms(1,2) by (simp_all add: timers_ok_def)
  note r1 = on_change_rearm [OF ok0 w0, of cfg T path, folded assms(4)]
  have ok1: "timers_ok (s1\<lparr>hashes := hs2\<rparr>)"
    using on_change_timers [OF ok0, of cfg T path] assms(4) by (simp add: timers_ok_def)
  have w1: "watcher_ready (s1\<lparr>hashes := hs2\<rparr>)" using r1(4) by simp
  note r2 = on_change_rearm [OF ok1 w1, of cfg "T + (5000 - e)" path2, folded assms(7)]
  have l1: "\<exists>es. on_hash cfg T path hash s = Inr (s1, es)"
    using on_hash_changed [OF assms(3), of T] assms(4) by (metis prod.collapse)
  have l2: "\<exists>es. on_hash cfg (T + (5000 - e)) path2 hash2 s1 = Inr (s2, es)"
    using on_hash_changed [OF assms(5), of "T + (5000 - e)"] assms(7) by (metis prod.collapse)
  have t1: "timers s1 = [(timer_count s, T + 5000)]" using r1(1) by simp
  have a: "\<forall>h t. t < T + 5000 \<longrightarrow> step cfg t (TimerFire h) s1 = Inr (s1, [])"
    using not_due_before [OF t1] by blast
  have b: "\<forall>t. T + 5000 \<le> t \<longrightarrow>
              step cfg t (TimerFire (timer_count s)) s1
                = Inr (on_timeout cfg (clearTimeout (timer_count s) s1))"
    using due_after [OF t1] by blast
  have c: "timers s2 = [(Suc (timer_count s), T + (5000 - e) + 5000)]"
    using r2(1) r1(3) by simp
  have d: "\<forall>h t. t < T + (5000 - e) + 5000 \<longrightarrow> step cfg t (TimerFire h) s2 = Inr (s2, [])"
    using not_due_before [OF c] by blast
  have to1: "timeout s1 = Some (timer_count s)" using r1(2) by simp
  have to2: "timeout s2 = Some (Suc (timer_count s))" using r2(2) r1(3) by simp
  from l1 l2 t1 to1 a b c to2 d show ?thesis by blast
qed

theorem debounce_rearm_witness:
  "on_hash cfg0 0 index_html ''0f'' ready0
     = Inr (armed0, [ConsoleInfo ''INFO :: file has changed index.html''])
   \<and> on_hash cfg0 2000 index_html ''a7'' armed0
     = Inr (batched, [ConsoleInfo ''INFO :: file has changed index.html''])
   \<and> timers armed0 = [(0, 5000)]
   \<and> timers batched = [(1, 7000)]
   \<and> step cfg0 5000 (TimerFire 0) batched = Inr (batched, [])
   \<and> step cfg0 6999 (TimerFire 1) batched = Inr (batched, [])"
proof -
  have h1: "timers_ok ready0" by (simp add: timers_ok_def ready0_def init_def)
  have h2: "watcher_ready ready0" by (simp add: ready0_def)
  have h3: "checkAndUpdate (hashes ready0) (getRelativePath (localPath cfg0) index_html) ''0f''
              = Inr (True, [''/index.html'' \<mapsto> ''0f''])"
    by (simp add: handler_defs ready0_def init_def cfg0_def index_html_def)
  have h4: "armed0 = fst (on_change cfg0 0 index_html
                            (ready0\<lparr>hashes := [''/index.html'' \<mapsto> ''0f'']\<rparr>))"
    by (simp add: handler_defs ready0_def armed0_def init_def cfg0_def index_html_def)
  have h5: "checkAndUpdate (hashes armed0) (getRelativePath (localPath cfg0) index_html) ''a7''
              = Inr (True, [''/index.html'' \<mapsto> ''a7''])"
    by (simp add: handler_defs armed0_def init_def cfg0_def index_html_def)
  have h6: "(3000::nat) \<le> 5000" by simp
  have h7: "batched = fst (on_change cfg0 (0 + (5000 - 3000)) index_html
                             (armed0\<lparr>hashes := [''/index.html'' \<mapsto> ''a7'']\<rparr>))"
    by (simp add: handler_defs batched_def armed0_def init_def cfg0_def index_html_def)
  have e1: "on_hash cfg0 0 index_html ''0f'' ready0
     = Inr (armed0, [ConsoleInfo ''INFO :: file has changed index.html''])"
    by (simp add: handler_defs ready0_def armed0_def init_def cfg0_def index_html_def)
  have e2: "on_hash cfg0 2000 index_html ''a7'' armed0
     = Inr (batched, [ConsoleInfo ''INFO :: file has changed index.html''])"
    by (simp add: handler_defs batched_def armed0_def init_def cfg0_def index_html_def)
  from debounce_rearm [OF h1 h2 h3 h4 h5 h6 h7] e1 e2
  show ?thesis by (simp add: ready0_def init_def)
qed

text \<open>
  C4 as stated has the window configurable. It is not: under no configuration, state,
  path or digest does a qualifying change arm the timer with a delay other than
  5000 ms; two configurations that differ in every setting both give 5000.
\<close>

theorem window_is_constant:
  "\<not> (\<exists>cfg now path hash s hs s' es.
         watcher_ready s
         \<and> checkAndUpdate (hashes s) (getRelativePath (localPath cfg) path) hash = Inr (True, hs)
         \<and> on_hash cfg now path hash s = Inr (s', es)
         \<and> snd (last (timers s')) \<noteq> now + 5000)
   \<and> on_hash cfg0 1000 index_html ''0f'' (init\<lparr>watcher_ready := True\<rparr>)
       = Inr (\<lparr>hashes = [''/index.html'' \<mapsto> ''0f''],
               updates = [(''/proj/src/index.html'', ''/index.html'')], timeout = Some 0,
               sftp_ready = False, watcher_ready = True, conn = None,
               timers = [(0, 6000)], timer_count = 1, clients = []\<rparr>,
              [ConsoleInfo ''INFO :: file has changed index.html''])
   \<and> on_hash cfg1 1000 win_path ''0f'' (init\<lparr>watcher_ready := True\<rparr>)
       = Inr (\<lparr>hashes = [''/site/a.css'' \<mapsto> ''0f''],
               updates = [(win_path, ''/site/a.css'')], timeout = Some 0,
               sftp_ready = False, watcher_ready = True, conn = None,
               timers = [(0, 6000)], timer_count = 1, clients = []\<rparr>,
              [ConsoleInfo ''INFO :: file has changed a.css''])"
proof -
  have "\<not> (\<exists>cfg now path hash s hs s' es.
         watcher_ready s
         \<and> checkAndUpdate (hashes s) (getRelativePath (localPath cfg) path) hash = Inr (True, hs)
         \<and> on_hash cfg now path hash s = Inr (s', es)
         \<and> snd (last (timers s')) \<noteq> now + 5000)"
  proof
    assume "\<exists>cfg now path hash s hs s' es.
         watcher_ready s
         \<and> checkAndUpdate (hashes s) (getRelativePath (localPath cfg) path) hash = Inr (True, hs)
         \<and> on_hash cfg now path hash s = Inr (s', es)
         \<and> snd (last (timers s')) \<noteq> now + 5000"
    then obtain cfg now path hash s hs s' es where
      w: "watcher_ready s"
      and c: "checkAndUpdate (hashes s) (getRelativePath (localPath cfg) path) hash
                = Inr (True, hs)"
      and o: "on_hash cfg now path hash s = Inr (s', es)"
      and n: "snd (last (timers s')) \<noteq> now + 5000"
      by blast
    from on_hash_changed [OF c, of now] o
    have "s' = fst (on_change cfg now path (s\<lparr>hashes := hs\<rparr>))"
      by (metis fst_conv sum.inject(2))
    with on_change_ready [of "s\<lparr>hashes := hs\<rparr>" cfg now path] w
    have "snd (last (timers s')) = now + 5000" by simp
    with n show False by simp
  qed
  moreover have "on_hash cfg0 1000 index_html ''0f'' (init\<lparr>watcher_ready := True\<rparr>)
       = Inr (\<lparr>hashes = [''/index.html'' \<mapsto> ''0f''],
               updates = [(''/proj/src/index.html'', ''/index.html'')], timeout = Some 0,
               sftp_ready = False, watcher_ready = True, conn = None,
               timers = [(0, 6000)], timer_count = 1, clients = []\<rparr>,
              [ConsoleInfo ''INFO :: file has changed index.html''])"
    by (simp add: handler_defs cfg0_def init_def index_html_def)
  moreover have "on_hash cfg1 1000 win_path ''0f'' (init\<lparr>watcher_ready := True\<rparr>)
       = Inr (\<lparr>hashes = [''/site/a.css'' \<mapsto> ''0f''],
               updates = [(win_path, ''/site/a.css'')], timeout = Some 0,
               sftp_ready = False, watcher_ready = True, conn = None,
               timers = [(0, 6000)], timer_count = 1, clients = []\<rparr>,
              [ConsoleInfo ''INFO :: file has changed a.css''])"
    by (simp add: handler_defs cfg1_def init_def win_path_def)
  ultimately show ?thesis by blast
qed

text \<open>
  The timer is not the only thing that starts a drain: the drain is a \<open>ready\<close> listener
  of its client, and the client's \<open>error\<close> listener connects the same client again.
  Here a change at 20000 ms arms the timer for 25000 ms; the client of the earlier
  drain loses its connection and is ready again at 21100 ms, and the file is
  transferred at 21200 ms.
\<close>

lemma drain_on_reconnect:
  "run cfg0 init (take 6 reconnect) =
     Inr (\<lparr>hashes = [''/index.html'' \<mapsto> ''a7''],
           updates = [(''/proj/src/index.html'', ''/index.html'')], timeout = Some 1,
           sftp_ready = True, watcher_ready = True, conn = Some 0, timers = [(1, 25000)],
           timer_count = 2,
           clients = [\<lparr>attempts = 0, ready_listeners = [MarkReady, Drain]\<rparr>]\<rparr>,
          [ConsoleInfo ''************************************************'',
           ConsoleInfo ''*  Initial scan complete. Ready for changes.   *'',
           ConsoleInfo ''************************************************'',
           ConsoleInfo ''INFO :: file has changed index.html'',
           Connect 0 (''example.org'', 22, ''deploy'', ''secret''),
           OpenSftp 0,
           StdoutWrite ''Writing files to sftp server '',
           FastPut ''/proj/src/index.html'' ''/var/www/app/index.html'',
           StdoutWrite (''........................ done'' @ [CHR 0x0A]),
           ConsoleInfo ''INFO :: file has changed index.html''])
   \<and> run cfg0 init reconnect =
     Inr (\<lparr>hashes = [''/index.html'' \<mapsto> ''a7''], updates = [], timeout = Some 1,
           sftp_ready = True, watcher_ready = True, conn = Some 0, timers = [(1, 25000)],
           timer_count = 2,
           clients = [\<lparr>attempts = 0, ready_listeners = [MarkReady, Drain]\<rparr>]\<rparr>,
          [ConsoleInfo ''************************************************'',
           ConsoleInfo ''*  Initial scan complete. Ready for changes.   *'',
           ConsoleInfo ''************************************************'',
           ConsoleInfo ''INFO :: file has changed index.html'',
           Connect 0 (''example.org'', 22, ''deploy'', ''secret''),
           OpenSftp 0,
           StdoutWrite ''Writing files to sftp server '',
           FastPut ''/proj/src/index.html'' ''/var/www/app/index.html'',
           StdoutWrite (''........................ done'' @ [CHR 0x0A]),
           ConsoleInfo ''INFO :: file has changed index.html'',
           StdoutWrite (''Unable to communicate with sftp server. Retrying |''
                        @ CHR 0x1B # ''[0G''),
           Connect 0 (''example.org'', 22, ''deploy'', ''secret''),
           OpenSftp 0,
           StdoutWrite ''Writing files to sftp server '',
           FastPut ''/proj/src/index.html'' ''/var/www/app/index.html'',
           StdoutWrite (''........................ done'' @ [CHR 0x0A])])"
  by (simp add: reconnect_def handler_defs cfg0_def init_def index_html_def)

subsection \<open>A read stream that fails\<close>

text \<open>
  C5. For a stream that fails while it is read, \<open>getHash\<close> does not call its callback
  (\<open>getHash_callback\<close>), so nothing is signalled to the caller; and it has registered
  no listener for the stream's \<open>error\<close> event, so Node.js throws the error out of the
  event loop and the process ends. Here the file disappears after its first chunk.
\<close>

theorem stream_error_unhandled:
  "\<forall>md5hex. getHash md5hex [StreamData ''<html>'', StreamError ''ENOENT''] = NoListener ''ENOENT''
     \<and> step cfg0 3 (Stream index_html
                      (getHash md5hex [StreamData ''<html>'', StreamError ''ENOENT''])) init
         = Inl (Uncaught ''ENOENT'')"
  by (simp add: getHash_def)

subsection \<open>A transfer that fails\<close>

text \<open>
  C6. The drain issues the transfer of every file of the batch and runs to its end
  (the "done" line) before any transfer's callback runs, so whatever the outcomes of
  the transfers are, the same transfers were attempted. A transfer that fails is
  reported by one \<open>console.error\<close> line of its own, and its callback changes nothing
  else; a transfer that succeeds reports nothing.
\<close>

theorem partial_failure:
  "run cfg s ((now, SftpCallback err (Some k))
              # map (\<lambda>(t, e). (t, FastPutCallback e)) outcomes) =
     Inr (s\<lparr>updates := []\<rparr>,
          (case err of Some e \<Rightarrow> [ConsoleError e] | None \<Rightarrow> [])
          @ [StdoutWrite ''Writing files to sftp server '']
          @ map (\<lambda>(path, rel). FastPut path (remotePath cfg @ rel)) (updates s)
          @ [StdoutWrite (''........................ done'' @ [CHR 0x0A])]
          @ concat (map (\<lambda>(t, e). case e of Some m \<Rightarrow> [ConsoleError m] | None \<Rightarrow> [])
                        outcomes))
   \<and> step cfg now (FastPutCallback (Some m)) s = Inr (s, [ConsoleError m])
   \<and> step cfg now (FastPutCallback None) s = Inr (s, [])"
  by (simp add: on_sftp_eq fastPut_callbacks_run on_fastPut_def)

theorem partial_failure_witness:
  "run cfg0 three_files
     [(9, SftpCallback None (Some 0)),
      (20, FastPutCallback None),
      (21, FastPutCallback (Some ''EACCES'')),
      (22, FastPutCallback None)] =
     Inr (three_files\<lparr>updates := []\<rparr>,
          [StdoutWrite ''Writing files to sftp server '',
           FastPut ''/proj/src/a.js'' ''/var/www/app/a.js'',
           FastPut ''/proj/src/b.js'' ''/var/www/app/b.js'',
           FastPut ''/proj/src/c.js'' ''/var/www/app/c.js'',
           StdoutWrite (''........................ done'' @ [CHR 0x0A]),
           ConsoleError ''EACCES''])"
  using partial_failure [of cfg0 three_files 9 None 0
          "[(20, None), (21, Some ''EACCES''), (22, None)]"]
  by (simp add: three_files_def init_def cfg0_def)

subsection \<open>The remote destination\<close>



subsection \<open>Connection errors and retries\<close>



subsection \<open>One client for every expiry of the timer\<close>

text \<open>
  C9 (as amended). Every expiry of the debounce timer calls \<open>connectToSFTPServer\<close>,
  which makes a new client with a retry counter of its own, starting at 0, and
  connects it; the variable \<open>conn\<close> is set to that new client. The clients made for
  earlier drains stay as they were.
\<close>

theorem timer_makes_new_client:
  assumes "due now h s"
  shows "step cfg now (TimerFire h) s =
           Inr (s\<lparr>timers := filter (\<lambda>t. fst t \<noteq> h) (timers s),
                  conn := Some (length (clients s)),
                  clients := clients s @ [\<lparr>attempts = 0, ready_listeners = [MarkReady, Drain]\<rparr>]\<rparr>,
                [Connect (length (clients s)) (connSettings cfg)])"
  using assms by (simp add: on_timeout_def connectToSFTPServer_def clearTimeout_def Let_def)

theorem timer_makes_new_client_witness:
  "step cfg0 5010 (TimerFire 0) armed =
     Inr (armed\<lparr>timers := [], conn := Some 0,
                clients := [\<lparr>attempts = 0, ready_listeners = [MarkReady, Drain]\<rparr>]\<rparr>,
          [Connect 0 (''example.org'', 22, ''deploy'', ''secret'')])"
proof -
  have "due 5010 0 armed" by (simp add: due_def armed_def init_def)
  from timer_makes_new_client [OF this, of cfg0]
  show ?thesis by (simp add: armed_def init_def cfg0_def connSettings_def)
qed

text \<open>
  C9 as stated has one connection object for the whole process, reused by every drain.
  Two batches, each drained: the run makes two clients, connects each, and the second
  drain goes through the second.
\<close>

theorem two_drains_two_clients:
  "run cfg0 init
     [(0, WatcherReady),
      (10, Stream index_html (Callback ''0f'')),
      (5010, TimerFire 0),
      (5200, ConnReady 0),
      (5300, SftpCallback None (Some 0)),
      (20000, Stream index_html (Callback ''a7'')),
      (25000, TimerFire 1),
      (25200, ConnReady 1),
      (25300, SftpCallback None (Some 1))]
   = Inr (\<lparr>hashes = [''/index.html'' \<mapsto> ''a7''], updates = [], timeout = Some 1,
           sftp_ready = True, watcher_ready = True, conn = Some 1, timers = [],
           timer_count = 2,
           clients = [\<lparr>attempts = 0, ready_listeners = [MarkReady, Drain]\<rparr>,
                      \<lparr>attempts = 0, ready_listeners = [MarkReady, Drain]\<rparr>]\<rparr>,
          [ConsoleInfo ''************************************************'',
           ConsoleInfo ''*  Initial scan complete. Ready for changes.   *'',
           ConsoleInfo ''************************************************'',
           ConsoleInfo ''INFO :: file has changed index.html'',
           Connect 0 (''example.org'', 22, ''deploy'', ''secret''),
           OpenSftp 0,
           StdoutWrite ''Writing files to sftp server '',
           FastPut ''/proj/src/index.html'' ''/var/www/app/index.html'',
           StdoutWrite (''........................ done'' @ [CHR 0x0A]),
           ConsoleInfo ''INFO :: file has changed index.html'',
           Connect 1 (''example.org'', 22, ''deploy'', ''secret''),
           OpenSftp 1,
           StdoutWrite ''Writing files to sftp server '',
           FastPut ''/proj/src/index.html'' ''/var/www/app/index.html'',
           StdoutWrite (''........................ done'' @ [CHR 0x0A])])"
  by (simp add: handler_defs cfg0_def init_def index_html_def)

subsection \<open>The ledger and the transfers\<close>

text \<open>
  C10. The ledger is written by the callback of \<open>getHash\<close> only: every other event
  leaves \<open>hashes\<close> as it was, the drain and the callbacks of the transfers included.
  So when a file's digest is in the ledger, the batch is drained and the file's
  transfer fails, the next event for the file with the same bytes changes nothing: no
  entry in the batch, no timer, no transfer. A digest that differs puts the file into
  the batch again.
\<close>

theorem ledger_frame:
  assumes "array_get (hashes s) (getRelativePath (localPath cfg) path) = Some hash"
    and "hash \<noteq> []"
  shows "(\<forall>now ev s' es.
            (\<forall>q h. ev \<noteq> Stream q (Callback h)) \<and> step cfg now ev s = Inr (s', es) \<longrightarrow>
            hashes s' = hashes s)
         \<and> run cfg s [(t1, SftpCallback err (Some k)),
                       (t2, FastPutCallback (Some m)),
                       (t3, WatcherAll ''change'' path),
                       (t4, Stream path (Callback hash))] =
             Inr (s\<lparr>updates := []\<rparr>,
                  (case err of Some e \<Rightarrow> [ConsoleError e] | None \<Rightarrow> [])
                  @ [StdoutWrite ''Writing files to sftp server '']
                  @ map (\<lambda>(path, rel). FastPut path (remotePath cfg @ rel)) (updates s)
                  @ [StdoutWrite (''........................ done'' @ [CHR 0x0A])]
                  @ [ConsoleError m, ReadStream path])
         \<and> (watcher_ready s \<and> hash' \<noteq> hash \<longrightarrow>
              (\<exists>s1 es. on_hash cfg t4 path hash' (s\<lparr>updates := []\<rparr>) = Inr (s1, es)
                 \<and> updates s1 = [(path, getRelativePath (localPath cfg) path)]))"
proof -
  have a: "\<forall>now ev s' es.
            (\<forall>q h. ev \<noteq> Stream q (Callback h)) \<and> step cfg now ev s = Inr (s', es) \<longrightarrow>
            hashes s' = hashes s"
    using step_ledger_frame by blast
  have u: "on_hash cfg t4 path hash (s\<lparr>updates := []\<rparr>) = Inr (s\<lparr>updates := []\<rparr>, [])"
    using on_hash_unchanged [of "s\<lparr>updates := []\<rparr>" cfg path hash t4] assms by simp
  have b: "run cfg s [(t1, SftpCallback err (Some k)),
                       (t2, FastPutCallback (Some m)),
                       (t3, WatcherAll ''change'' path),
                       (t4, Stream path (Callback hash))] =
             Inr (s\<lparr>updates := []\<rparr>,
                  (case err of Some e \<Rightarrow> [ConsoleError e] | None \<Rightarrow> [])
                  @ [StdoutWrite ''Writing files to sftp server '']
                  @ map (\<lambda>(path, rel). FastPut path (remotePath cfg @ rel)) (updates s)
                  @ [StdoutWrite (''........................ done'' @ [CHR 0x0A])]
                  @ [ConsoleError m, ReadStream path])"
    by (simp add: on_sftp_eq on_fastPut_def on_all_def u)
  have c: "watcher_ready s \<and> hash' \<noteq> hash \<longrightarrow>
              (\<exists>s1 es. on_hash cfg t4 path hash' (s\<lparr>updates := []\<rparr>) = Inr (s1, es)
                 \<and> updates s1 = [(path, getRelativePath (localPath cfg) path)])"
  proof
    assume h: "watcher_ready s \<and> hash' \<noteq> hash"
    let ?rp = "getRelativePath (localPath cfg) path"
    from assms(1) have o: "?rp \<noteq> ''length''" "?rp \<noteq> ''__proto__''" "hashes s ?rp = Some hash"
      by (auto simp: array_get_def split: if_splits)
    with h have ch: "checkAndUpdate (hashes (s\<lparr>updates := []\<rparr>)) ?rp hash'
                   = Inr (True, (hashes s)(?rp \<mapsto> hash'))"
      by (auto simp: checkAndUpdate_ordinary)
    have "on_hash cfg t4 path hash' (s\<lparr>updates := []\<rparr>)
            = Inr (on_change cfg t4 path (s\<lparr>updates := [], hashes := (hashes s)(?rp \<mapsto> hash')\<rparr>))"
      using on_hash_changed [OF ch, of t4] by simp
    moreover have "updates (fst (on_change cfg t4 path
                     (s\<lparr>updates := [], hashes := (hashes s)(?rp \<mapsto> hash')\<rparr>)))
                     = [(path, ?rp)]"
      using h on_change_ready [of "s\<lparr>updates := [], hashes := (hashes s)(?rp \<mapsto> hash')\<rparr>"
                                 cfg t4 path]
      by simp
    ultimately show "\<exists>s1 es. on_hash cfg t4 path hash' (s\<lparr>updates := []\<rparr>) = Inr (s1, es)
                 \<and> updates s1 = [(path, ?rp)]"
      by (metis prod.collapse)
  qed
  from a b c show ?thesis by blast
qed

theorem ledger_frame_witness:
  "run cfg0 uploaded [(7002, SftpCallback None (Some 0)),
                      (7100, FastPutCallback (Some ''EACCES'')),
                      (9000, WatcherAll ''change'' index_html),
                      (9001, Stream index_html (Callback ''a7''))] =
     Inr (uploaded\<lparr>updates := []\<rparr>,
          [StdoutWrite ''Writing files to sftp server '',
           FastPut ''/proj/src/index.html'' ''/var/www/app/index.html'',
           StdoutWrite (''........................ done'' @ [CHR 0x0A]),
           ConsoleError ''EACCES'',
           ReadStream ''/proj/src/index.html''])
   \<and> (\<exists>s1 es. on_hash cfg0 9001 index_html ''c3'' (uploaded\<lparr>updates := []\<rparr>) = Inr (s1, es)
         \<and> updates s1 = [(''/proj/src/index.html'', ''/index.html'')])"
proof -
  have h1: "array_get (hashes uploaded) (getRelativePath (localPath cfg0) index_html)
              = Some ''a7''"
    by (simp add: uploaded_def init_def cfg0_def index_html_def handler_defs)
  have h2: "''a7'' \<noteq> []" by simp
  have h3: "watcher_ready uploaded \<and> ''c3'' \<noteq> ''a7''" by (simp add: uploaded_def)
  from ledger_frame [OF h1 h2, of 7002 None 0 7100 "''EACCES''" 9000 9001 "''c3''"] h3
  show ?thesis
    by (simp add: uploaded_def init_def cfg0_def index_html_def handler_defs)
qed

end
